theory Spec2Isabelle
  imports Main
begin

section \<open>Metadata Creator: file sampler, conversation store and model gateway\<close>

text \<open>
  A shallow embedding of \<^verbatim>\<open>src/app.py\<close>. Python text and bytes are character
  lists (code points below 256). Every \<^verbatim>\<open>raise\<close> is a value \<open>Inl e\<close>
  of a sum type, every \<^verbatim>\<open>try ... except Exception\<close> a case distinction on it.
  Calls into libraries outside the repository (base64, codecs, pandas, json, the
  Databricks client) are parameters: a record of functions that either raise or return.
\<close>

subsection \<open>Text primitives of Python used by the source\<close>

abbreviation NL :: char where
  "NL \<equiv> CHR 0x0A"

abbreviation QUOTE :: char where
  "QUOTE \<equiv> CHR 0x27"

text \<open>\<^verbatim>\<open>s.endswith(suffix)\<close>, case sensitive.\<close>

definition endswith :: "string \<Rightarrow> string \<Rightarrow> bool" where
  "endswith s suffix =
     (length suffix \<le> length s \<and> drop (length s - length suffix) s = suffix)"

text \<open>\<^verbatim>\<open>s.split(sep)\<close> for a one-character separator: never an empty list.\<close>

fun split_sep :: "char \<Rightarrow> string \<Rightarrow> string list" where
  "split_sep sep [] = [[]]"
| "split_sep sep (c # cs) =
     (if c = sep then [] # split_sep sep cs
      else (case split_sep sep cs of
              [] \<Rightarrow> [[c]]
            | p # ps \<Rightarrow> (c # p) # ps))"

text \<open>\<^verbatim>\<open>sep.join(parts)\<close>.\<close>

fun join_sep :: "string \<Rightarrow> string list \<Rightarrow> string" where
  "join_sep sep [] = []"
| "join_sep sep [p] = p"
| "join_sep sep (p # q # ps) = p @ sep @ join_sep sep (q # ps)"

text \<open>
  The characters \<^verbatim>\<open>str.strip()\<close> removes, among the code points below 256:
  TAB to CR, FS to US, space, NEL and the no-break space.
\<close>

definition is_space :: "char \<Rightarrow> bool" where
  "is_space c =
     (let n = (of_char c :: nat)
      in (9 \<le> n \<and> n \<le> 13) \<or> (28 \<le> n \<and> n \<le> 31) \<or> n = 32 \<or> n = 133 \<or> n = 160)"

definition strip :: "string \<Rightarrow> string" where
  "strip s = rev (dropWhile is_space (rev (dropWhile is_space s)))"

subsection \<open>Exceptions\<close>

text \<open>
  The exceptions the modelled code can meet, each with the text of its argument.
  \<open>Exception\<close> stands for any exception derived from Python's \<^verbatim>\<open>Exception\<close>
  that a library call raises; \<open>str_exn\<close> is \<^verbatim>\<open>str(e)\<close>.
  Interrupts and exits, which \<^verbatim>\<open>except Exception\<close> does not catch, are not
  modelled.
\<close>

datatype exn =
    ValueError string
  | KeyError string
  | TypeError string
  | AttributeError string
  | FileNotFoundError string
  | Exception string

fun str_exn :: "exn \<Rightarrow> string" where
  "str_exn (ValueError m) = m"
| "str_exn (KeyError k) = [QUOTE] @ k @ [QUOTE]"
| "str_exn (TypeError m) = m"
| "str_exn (AttributeError m) = m"
| "str_exn (FileNotFoundError m) = m"
| "str_exn (Exception m) = m"

subsection \<open>Library values: data frames and JSON\<close>

text \<open>
  A pandas data frame as its column labels and its rows; \<open>df_head n\<close> is
  \<^verbatim>\<open>df.head(n)\<close>, the first \<open>n\<close> rows.
\<close>

record dataframe =
  df_columns :: "string list"
  df_rows :: "string list list"

definition df_head :: "nat \<Rightarrow> dataframe \<Rightarrow> dataframe" where
  "df_head n df = df\<lparr>df_rows := take n (df_rows df)\<rparr>"

text \<open>
  What \<^verbatim>\<open>json.loads\<close> returns. A finite float is kept by its
  \<^verbatim>\<open>repr\<close>; the other floats are the two infinities and not-a-number.
\<close>

datatype pyfloat = Finite string | PosInf | NegInf | NaN

datatype json =
    JNull
  | JBool bool
  | JInt int
  | JFloat pyfloat
  | JStr string
  | JList "json list"
  | JDict "(string \<times> json) list"

text \<open>
  The library calls of \<^verbatim>\<open>parse_file_content\<close>: \<^verbatim>\<open>base64.b64decode\<close>,
  \<^verbatim>\<open>bytes.decode('utf-8')\<close>, \<^verbatim>\<open>pd.read_csv\<close>, \<^verbatim>\<open>pd.read_excel\<close>,
  \<^verbatim>\<open>DataFrame.to_string\<close>, \<^verbatim>\<open>json.loads\<close> and
  \<^verbatim>\<open>json.dumps(..., indent=2)\<close>.
\<close>

record libs =
  b64decode :: "string \<Rightarrow> exn + string"
  utf8_decode :: "string \<Rightarrow> exn + string"
  read_csv :: "string \<Rightarrow> exn + dataframe"
  read_excel :: "string \<Rightarrow> exn + dataframe"
  to_string :: "dataframe \<Rightarrow> string"
  json_loads :: "string \<Rightarrow> exn + json"
  json_dumps :: "json \<Rightarrow> string"

subsection \<open>File Sampler: \<^verbatim>\<open>parse_file_content\<close>\<close>

text \<open>The body of the \<^verbatim>\<open>try\<close> block, lines 223 to 249.\<close>

definition parse_file_content_try :: "libs \<Rightarrow> string \<Rightarrow> string \<Rightarrow> exn + string" where
  "parse_file_content_try L contents filename =
     (case split_sep (CHR '','') contents of
        [content_type, content_string] \<Rightarrow>
          (case b64decode L content_string of
             Inl e \<Rightarrow> Inl e
           | Inr decoded \<Rightarrow>
               if endswith filename ''.csv'' then
                 (case utf8_decode L decoded of
                    Inl e \<Rightarrow> Inl e
                  | Inr text \<Rightarrow>
                      (case read_csv L text of
                         Inl e \<Rightarrow> Inl e
                       | Inr df \<Rightarrow>
                           Inr (''File: '' @ filename @ [NL]
                                @ ''Sample data (first 10 rows):'' @ [NL, NL]
                                @ to_string L (df_head 10 df))))
               else if endswith filename ''.xlsx'' \<or> endswith filename ''.xls'' then
                 (case read_excel L decoded of
                    Inl e \<Rightarrow> Inl e
                  | Inr df \<Rightarrow>
                      Inr (''File: '' @ filename @ [NL]
                           @ ''Sample data (first 10 rows):'' @ [NL, NL]
                           @ to_string L (df_head 10 df)))
               else if endswith filename ''.json'' then
                 (case utf8_decode L decoded of
                    Inl e \<Rightarrow> Inl e
                  | Inr text \<Rightarrow>
                      (case json_loads L text of
                         Inl e \<Rightarrow> Inl e
                       | Inr data \<Rightarrow>
                           Inr (''File: '' @ filename @ [NL]
                                @ ''Sample data:'' @ [NL, NL]
                                @ (case data of
                                     JList xs \<Rightarrow> json_dumps L (JList (take 10 xs))
                                   | _ \<Rightarrow> json_dumps L data))))
               else
                 (case utf8_decode L decoded of
                    Inl e \<Rightarrow> Inl e
                  | Inr text \<Rightarrow>
                      Inr (''File: '' @ filename @ [NL]
                           @ ''Sample data (first 10 lines):'' @ [NL, NL]
                           @ join_sep [NL] (take 10 (split_sep NL text)))))
      | [_] \<Rightarrow> Inl (ValueError ''not enough values to unpack (expected 2, got 1)'')
      | _ \<Rightarrow> Inl (ValueError ''too many values to unpack (expected 2)''))"

text \<open>The whole function: the \<^verbatim>\<open>except Exception\<close> clause turns a raise into text.\<close>

definition parse_file_content :: "libs \<Rightarrow> string \<Rightarrow> string \<Rightarrow> exn + string" where
  "parse_file_content L contents filename =
     (case parse_file_content_try L contents filename of
        Inl e \<Rightarrow> Inr (''Error parsing file: '' @ str_exn e)
      | Inr preview \<Rightarrow> Inr preview)"

subsection \<open>Conversation Store: a list of role/content dictionaries\<close>

text \<open>
  A message is a Python dict from text to values; a value is text or \<^verbatim>\<open>None\<close>
  (\<open>Some t\<close> or \<open>None\<close>), since the assistant's content is whatever the gateway
  returned. \<open>subscript m k\<close> is \<^verbatim>\<open>m[k]\<close>, which raises \<^verbatim>\<open>KeyError\<close> on
  a missing key.
\<close>

type_synonym msg = "string \<rightharpoonup> string option"

definition subscript :: "msg \<Rightarrow> string \<Rightarrow> exn + string option" where
  "subscript m k = (case m k of None \<Rightarrow> Inl (KeyError k) | Some v \<Rightarrow> Inr v)"

text \<open>The dict literal \<^verbatim>\<open>{'role': r, 'content': c}\<close>.\<close>

definition mk_msg :: "string \<Rightarrow> string option \<Rightarrow> msg" where
  "mk_msg r c = [''role'' \<mapsto> Some r, ''content'' \<mapsto> c]"

text \<open>
  The two appends the callbacks perform in line:
  \<^verbatim>\<open>conversation.append({'role': 'user', 'content': ...})\<close> and
  \<^verbatim>\<open>conversation.append({'role': 'assistant', 'content': ...})\<close>.
\<close>

definition append_user :: "string \<Rightarrow> msg list \<Rightarrow> msg list" where
  "append_user c conversation = conversation @ [mk_msg ''user'' (Some c)]"

definition append_assistant :: "string option \<Rightarrow> msg list \<Rightarrow> msg list" where
  "append_assistant c conversation = conversation @ [mk_msg ''assistant'' c]"

text \<open>A run of appends, in the order given.\<close>

datatype turn = UserTurn string | AssistantTurn "string option"

fun msg_of_turn :: "turn \<Rightarrow> msg" where
  "msg_of_turn (UserTurn c) = mk_msg ''user'' (Some c)"
| "msg_of_turn (AssistantTurn c) = mk_msg ''assistant'' c"

fun append_turns :: "msg list \<Rightarrow> turn list \<Rightarrow> msg list" where
  "append_turns conversation [] = conversation"
| "append_turns conversation (UserTurn c # ts) = append_turns (append_user c conversation) ts"
| "append_turns conversation (AssistantTurn c # ts) =
     append_turns (append_assistant c conversation) ts"

text \<open>A message both of whose keys are present, as the callbacks build them.\<close>

definition has_role_content :: "msg \<Rightarrow> bool" where
  "has_role_content m = (m ''role'' \<noteq> None \<and> m ''content'' \<noteq> None)"

subsection \<open>Model Gateway: \<^verbatim>\<open>call_databricks_model\<close>\<close>

datatype ChatMessageRole = SYSTEM | USER | ASSISTANT

text \<open>A chat message of the request: its role and its content, text or \<^verbatim>\<open>None\<close>.\<close>

datatype ChatMessage = ChatMessage ChatMessageRole "string option"

fun cm_role :: "ChatMessage \<Rightarrow> ChatMessageRole" where
  "cm_role (ChatMessage r c) = r"

fun cm_content :: "ChatMessage \<Rightarrow> string option" where
  "cm_content (ChatMessage r c) = c"

text \<open>The keyword arguments of \<^verbatim>\<open>w.serving_endpoints.query\<close>.\<close>

record query_args =
  q_name :: string
  q_messages :: "ChatMessage list"
  q_max_tokens :: nat

text \<open>
  The response object as lines 279 and 280 read it. Its attribute \<^verbatim>\<open>choices\<close> is
  missing, \<^verbatim>\<open>None\<close> or a list. The \<^verbatim>\<open>message\<close> of a choice is
  \<^verbatim>\<open>None\<close> or a message object, and the \<^verbatim>\<open>content\<close> of a message
  object is \<^verbatim>\<open>None\<close> or text.
\<close>

datatype reply_message = ReplyMessage "string option"

type_synonym choice = "reply_message option"

datatype choices_attr = NoAttribute | ChoicesNone | Choices "choice list"

record response =
  choices :: choices_attr

text \<open>
  The module-level configuration: \<^verbatim>\<open>SERVING_ENDPOINT\<close> (the value of
  \<^verbatim>\<open>os.getenv\<close>, \<open>None\<close> when unset), \<^verbatim>\<open>SYSTEM_PROMPT\<close>, and the remote
  endpoint behind the workspace client \<^verbatim>\<open>w\<close>, which answers a query knowing the
  queries made before it.
\<close>

record env =
  SERVING_ENDPOINT :: "string option"
  SYSTEM_PROMPT :: string
  query :: "query_args list \<Rightarrow> query_args \<Rightarrow> exn + response"

text \<open>
  What the program has done so far: the conversations passed to the gateway and the
  queries sent to the remote endpoint, oldest first.
\<close>

record world =
  gateway_calls :: "msg list list"
  remote_requests :: "query_args list"

text \<open>Python's \<^verbatim>\<open>not SERVING_ENDPOINT\<close>: unset or the empty text.\<close>

definition endpoint_unset :: "env \<Rightarrow> bool" where
  "endpoint_unset E = (case SERVING_ENDPOINT E of None \<Rightarrow> True | Some n \<Rightarrow> n = [])"

text \<open>The \<^verbatim>\<open>for msg in messages\<close> loop of lines 267 to 269.\<close>

fun chat_loop :: "ChatMessage list \<Rightarrow> msg list \<Rightarrow> exn + ChatMessage list" where
  "chat_loop chat_messages [] = Inr chat_messages"
| "chat_loop chat_messages (m # ms) =
     (case subscript m ''role'' of
        Inl e \<Rightarrow> Inl e
      | Inr r \<Rightarrow>
          (case subscript m ''content'' of
             Inl e \<Rightarrow> Inl e
           | Inr c \<Rightarrow>
               chat_loop
                 (chat_messages @ [ChatMessage (if r = Some ''user'' then USER else ASSISTANT) c])
                 ms))"

text \<open>
  Lines 262 to 276: the chat messages and keyword arguments of the query. Inside the
  \<^verbatim>\<open>try\<close> block the endpoint name is set.
\<close>

definition build_request :: "env \<Rightarrow> msg list \<Rightarrow> exn + query_args" where
  "build_request E messages =
     (case chat_loop [ChatMessage SYSTEM (Some (SYSTEM_PROMPT E))] messages of
        Inl e \<Rightarrow> Inl e
      | Inr chat_messages \<Rightarrow>
          Inr \<lparr>q_name = (case SERVING_ENDPOINT E of None \<Rightarrow> [] | Some n \<Rightarrow> n),
               q_messages = chat_messages,
               q_max_tokens = 2000\<rparr>)"

text \<open>
  The call \<^verbatim>\<open>w.serving_endpoints.query(name=..., messages=..., max_tokens=...)\<close>:
  the endpoint receives these arguments, which the world records, and answers them.
\<close>

definition serving_endpoints_query ::
  "env \<Rightarrow> world \<Rightarrow> query_args \<Rightarrow> (exn + response) \<times> world" where
  "serving_endpoints_query E W rq =
     (query E (remote_requests W) rq, W\<lparr>remote_requests := remote_requests W @ [rq]\<rparr>)"

text \<open>The messages of the two exceptions that reading a response can raise.\<close>

definition none_has_no_len :: string where
  "none_has_no_len = ''object of type '' @ [QUOTE] @ ''NoneType'' @ [QUOTE] @ '' has no len()''"

definition none_has_no_content :: string where
  "none_has_no_content =
     [QUOTE] @ ''NoneType'' @ [QUOTE] @ '' object has no attribute '' @ [QUOTE] @ ''content''
     @ [QUOTE]"

text \<open>
  Lines 279 to 282. \<^verbatim>\<open>len(None)\<close> raises \<^verbatim>\<open>TypeError\<close>, the attribute
  \<^verbatim>\<open>content\<close> of \<^verbatim>\<open>None\<close> raises \<^verbatim>\<open>AttributeError\<close>, and the content
  of the first message is returned as it is, text or \<^verbatim>\<open>None\<close>.
\<close>

definition extract_reply :: "response \<Rightarrow> exn + string option" where
  "extract_reply rsp =
     (case choices rsp of
        NoAttribute \<Rightarrow> Inr (Some ''Sorry, I couldn't process that request.'')
      | ChoicesNone \<Rightarrow> Inl (TypeError none_has_no_len)
      | Choices [] \<Rightarrow> Inr (Some ''Sorry, I couldn't process that request.'')
      | Choices (None # cs) \<Rightarrow> Inl (AttributeError none_has_no_content)
      | Choices (Some (ReplyMessage content) # cs) \<Rightarrow> Inr content)"

text \<open>The body of the \<^verbatim>\<open>try\<close> block, lines 262 to 282.\<close>

definition call_databricks_model_try ::
  "env \<Rightarrow> world \<Rightarrow> msg list \<Rightarrow> (exn + string option) \<times> world" where
  "call_databricks_model_try E W messages =
     (case build_request E messages of
        Inl e \<Rightarrow> (Inl e, W)
      | Inr rq \<Rightarrow>
          (case serving_endpoints_query E W rq of
             (Inl e, W') \<Rightarrow> (Inl e, W')
           | (Inr rsp, W') \<Rightarrow> (extract_reply rsp, W')))"

text \<open>
  The whole function. Its value is text or \<^verbatim>\<open>None\<close>: line 280 returns the
  content it finds.
\<close>

definition call_databricks_model ::
  "env \<Rightarrow> world \<Rightarrow> msg list \<Rightarrow> (exn + string option) \<times> world" where
  "call_databricks_model E W messages =
     (let W0 = W\<lparr>gateway_calls := gateway_calls W @ [messages]\<rparr>
      in if endpoint_unset E then
           (Inr (Some (''Error: DATABRICKS_SERVING_ENDPOINT is not set. ''
                       @ ''Add it to your .env file for local development, ''
                       @ ''or ensure the app is deployed with a serving endpoint resource.'')),
            W0)
         else
           (case call_databricks_model_try E W0 messages of
              (Inl e, W1) \<Rightarrow> (Inr (Some (''Error calling model: '' @ str_exn e)), W1)
            | (Inr reply, W1) \<Rightarrow> (Inr reply, W1)))"

subsection \<open>The two callbacks\<close>

text \<open>A callback output: \<^verbatim>\<open>dash.no_update\<close> or a new value of the property.\<close>

datatype 'a dash_output = no_update | Update 'a

text \<open>The two kinds of message bubble the callbacks build.\<close>

datatype component = UserBubble "string option" | AssistantBubble "string option"

text \<open>The rendering loop, lines 431 to 447 and 481 to 497.\<close>

fun render_loop :: "component list \<Rightarrow> msg list \<Rightarrow> exn + component list" where
  "render_loop messages [] = Inr messages"
| "render_loop messages (m # ms) =
     (case subscript m ''role'' of
        Inl e \<Rightarrow> Inl e
      | Inr r \<Rightarrow>
          (case subscript m ''content'' of
             Inl e \<Rightarrow> Inl e
           | Inr c \<Rightarrow>
               render_loop
                 (messages @ [if r = Some ''user'' then UserBubble c else AssistantBubble c])
                 ms))"

text \<open>
  \<^verbatim>\<open>send_message(n_clicks, message, conversation)\<close>: its three outputs are the chat
  children, the input value and the conversation history.
\<close>

definition send_message ::
  "env \<Rightarrow> world \<Rightarrow> nat \<Rightarrow> string option \<Rightarrow> msg list option
     \<Rightarrow> (exn + component list dash_output \<times> string dash_output \<times> msg list dash_output) \<times> world" where
  "send_message E W n_clicks message conversation =
     (if (case message of None \<Rightarrow> True | Some s \<Rightarrow> s = [] \<or> strip s = []) then
        (Inr (no_update, no_update, no_update), W)
      else
        (let text = (case message of None \<Rightarrow> [] | Some s \<Rightarrow> s);
             conversation1 = (case conversation of None \<Rightarrow> [] | Some c \<Rightarrow> c);
             conversation2 = append_user text conversation1
         in (case call_databricks_model E W conversation2 of
               (Inl e, W1) \<Rightarrow> (Inl e, W1)
             | (Inr ai_response, W1) \<Rightarrow>
                 (let conversation3 = append_assistant ai_response conversation2
                  in (case render_loop [] conversation3 of
                        Inl e \<Rightarrow> (Inl e, W1)
                      | Inr messages \<Rightarrow>
                          (Inr (Update messages, Update [], Update conversation3), W1))))))"

text \<open>
  \<^verbatim>\<open>handle_file_upload(contents, filename, conversation)\<close>: its three outputs are
  the uploaded file data, the chat children and the conversation history.
\<close>

definition handle_file_upload ::
  "libs \<Rightarrow> env \<Rightarrow> world \<Rightarrow> string option \<Rightarrow> string \<Rightarrow> msg list option
     \<Rightarrow> (exn + string option dash_output \<times> component list dash_output \<times> msg list dash_output) \<times> world" where
  "handle_file_upload L E W contents filename conversation =
     (case contents of
        None \<Rightarrow> (Inr (Update None, no_update, no_update), W)
      | Some cts \<Rightarrow>
          (case parse_file_content L cts filename of
             Inl e \<Rightarrow> (Inl e, W)
           | Inr file_content \<Rightarrow>
               (let conversation1 = (case conversation of None \<Rightarrow> [] | Some c \<Rightarrow> c);
                    conversation2 =
                      append_user (''[File uploaded: '' @ filename @ '']'' @ [NL, NL] @ file_content)
                        conversation1
                in (case call_databricks_model E W conversation2 of
                      (Inl e, W1) \<Rightarrow> (Inl e, W1)
                    | (Inr ai_response, W1) \<Rightarrow>
                        (let conversation3 = append_assistant ai_response conversation2
                         in (case render_loop [] conversation3 of
                               Inl e \<Rightarrow> (Inl e, W1)
                             | Inr messages \<Rightarrow>
                                 (Inr (Update (Some file_content), Update messages,
                                       Update conversation3), W1)))))))"

subsection \<open>The page properties the callbacks read and write\<close>

text \<open>
  The properties named by the \<^verbatim>\<open>@callback\<close> decorators: the children of
  \<^verbatim>\<open>chat-messages\<close>, the value of \<^verbatim>\<open>message-input\<close>, the data of
  \<^verbatim>\<open>conversation-history\<close> and of \<^verbatim>\<open>uploaded-file-data\<close>.
\<close>

record page =
  chat_messages_children :: "component list"
  message_input_value :: "string option"
  conversation_history_data :: "msg list option"
  uploaded_file_data :: "string option"

definition write_output :: "'a dash_output \<Rightarrow> 'a \<Rightarrow> 'a" where
  "write_output out old = (case out of no_update \<Rightarrow> old | Update v \<Rightarrow> v)"

text \<open>
  A click on Send: the decorator of lines 451 to 459 passes the two states to
  \<^verbatim>\<open>send_message\<close> and writes its outputs back; a callback that raises writes nothing.
\<close>

definition on_send_click :: "env \<Rightarrow> nat \<Rightarrow> world \<times> page \<Rightarrow> world \<times> page" where
  "on_send_click E n_clicks st =
     (case st of (W, P) \<Rightarrow>
        (case send_message E W n_clicks (message_input_value P) (conversation_history_data P) of
           (Inl e, W1) \<Rightarrow> (W1, P)
         | (Inr (children, val, hist), W1) \<Rightarrow>
             (W1, P\<lparr>chat_messages_children := write_output children (chat_messages_children P),
                    message_input_value :=
                      write_output (case val of no_update \<Rightarrow> no_update | Update v \<Rightarrow> Update (Some v))
                        (message_input_value P),
                    conversation_history_data :=
                      write_output (case hist of no_update \<Rightarrow> no_update | Update c \<Rightarrow> Update (Some c))
                        (conversation_history_data P)\<rparr>)))"

subsection \<open>Startup: \<^verbatim>\<open>_load_system_prompt\<close>\<close>

text \<open>
  The file system as far as line 64 to 70 read it: a path leads to nothing, to a
  directory or to a file's bytes.
\<close>

datatype node = Directory | File string

type_synonym filesystem = "string \<rightharpoonup> node"

text \<open>
  \<^verbatim>\<open>_load_system_prompt()\<close> for the path \<open>prompt_path\<close> of
  \<^verbatim>\<open>metadata_prompt.txt\<close> beside \<^verbatim>\<open>app.py\<close>.
\<close>

definition load_system_prompt :: "libs \<Rightarrow> filesystem \<Rightarrow> string \<Rightarrow> exn + string" where
  "load_system_prompt L fs prompt_path =
     (case fs prompt_path of
        None \<Rightarrow>
          Inl (FileNotFoundError
                 (''Metadata prompt file not found: '' @ prompt_path @ ''. ''
                  @ ''Ensure metadata_prompt.txt exists in the same directory as app.py.''))
      | Some Directory \<Rightarrow> Inl (Exception (''[Errno 21] Is a directory: '' @ [QUOTE] @ prompt_path @ [QUOTE]))
      | Some (File bytes) \<Rightarrow>
          (case utf8_decode L bytes of
             Inl e \<Rightarrow> Inl e
           | Inr text \<Rightarrow> Inr (strip text)))"

text \<open>
  The module body up to line 73, run once on import: the environment is read, the
  workspace client is built (\<open>client\<close> is what its constructor gives), then
  \<^verbatim>\<open>SYSTEM_PROMPT = _load_system_prompt()\<close>. An exception at any of these
  statements ends the import, so no application object exists.
\<close>

definition startup ::
  "libs \<Rightarrow> filesystem \<Rightarrow> string \<Rightarrow> string option
     \<Rightarrow> (exn + (query_args list \<Rightarrow> query_args \<Rightarrow> exn + response)) \<Rightarrow> exn + env" where
  "startup L fs prompt_path endpoint client =
     (case client of
        Inl e \<Rightarrow> Inl e
      | Inr q \<Rightarrow>
          (case load_system_prompt L fs prompt_path of
             Inl e \<Rightarrow> Inl e
           | Inr prompt \<Rightarrow>
               Inr \<lparr>SERVING_ENDPOINT = endpoint, SYSTEM_PROMPT = prompt, query = q\<rparr>))"

subsection \<open>JSON texts: Python's serialiser and the grammar of RFC 8259\<close>

abbreviation DQUOTE :: char where
  "DQUOTE \<equiv> CHR 0x22"

abbreviation BACKSLASH :: char where
  "BACKSLASH \<equiv> CHR 0x5C"

text \<open>Decimal digits of a natural number and of an integer, as \<^verbatim>\<open>str(n)\<close> writes them.\<close>

function show_nat :: "nat \<Rightarrow> string" where
  "show_nat n =
     (if n < 10 then [''0123456789'' ! n]
      else show_nat (n div 10) @ [''0123456789'' ! (n mod 10)])"
  by pat_completeness auto
termination
  by (relation "measure id") auto

definition show_int :: "int \<Rightarrow> string" where
  "show_int i = (if i < 0 then CHR ''-'' # show_nat (nat (- i)) else show_nat (nat i))"

text \<open>
  A string as \<^verbatim>\<open>json.dumps\<close> writes it with \<^verbatim>\<open>ensure_ascii\<close>: the quote and
  the backslash escaped, the short escapes for backspace, tab, newline, form feed and
  carriage return, and \<^verbatim>\<open>\u00XX\<close> for every other character outside space to
  tilde.
\<close>

definition escape_char :: "char \<Rightarrow> string" where
  "escape_char c =
     (let n = (of_char c :: nat)
      in if c = DQUOTE then [BACKSLASH, DQUOTE]
         else if c = BACKSLASH then [BACKSLASH, BACKSLASH]
         else if n = 8 then [BACKSLASH, CHR ''b'']
         else if n = 9 then [BACKSLASH, CHR ''t'']
         else if n = 10 then [BACKSLASH, CHR ''n'']
         else if n = 12 then [BACKSLASH, CHR ''f'']
         else if n = 13 then [BACKSLASH, CHR ''r'']
         else if 32 \<le> n \<and> n \<le> 126 then [c]
         else [BACKSLASH, CHR ''u'', CHR ''0'', CHR ''0'',
               ''0123456789abcdef'' ! (n div 16), ''0123456789abcdef'' ! (n mod 16)])"

definition dumps_string :: "string \<Rightarrow> string" where
  "dumps_string s = DQUOTE # concat (map escape_char s) @ [DQUOTE]"

definition dumps_float :: "pyfloat \<Rightarrow> string" where
  "dumps_float f =
     (case f of Finite r \<Rightarrow> r | PosInf \<Rightarrow> ''Infinity'' | NegInf \<Rightarrow> ''-Infinity'' | NaN \<Rightarrow> ''NaN'')"

text \<open>
  \<^verbatim>\<open>json.dumps(value, indent=2)\<close> at a nesting level: an empty list or dict on one
  line, otherwise one item per line, two spaces deeper, the items separated by a comma
  and a newline, a key from its value by a colon and a space.
\<close>

fun dumps_at :: "nat \<Rightarrow> json \<Rightarrow> string" where
  "dumps_at level JNull = ''null''"
| "dumps_at level (JBool b) = (if b then ''true'' else ''false'')"
| "dumps_at level (JInt i) = show_int i"
| "dumps_at level (JFloat f) = dumps_float f"
| "dumps_at level (JStr s) = dumps_string s"
| "dumps_at level (JList xs) =
     (if xs = [] then ''[]''
      else ''['' @ [NL]
           @ join_sep ('','' @ [NL])
               (map (\<lambda>x. replicate (2 * Suc level) (CHR '' '') @ dumps_at (Suc level) x) xs)
           @ [NL] @ replicate (2 * level) (CHR '' '') @ '']'')"
| "dumps_at level (JDict kvs) =
     (if kvs = [] then ''{}''
      else ''{'' @ [NL]
           @ join_sep ('','' @ [NL])
               (map (\<lambda>kv. replicate (2 * Suc level) (CHR '' '') @ dumps_string (fst kv) @ '': ''
                          @ dumps_at (Suc level) (snd kv)) kvs)
           @ [NL] @ replicate (2 * level) (CHR '' '') @ ''}'')"

definition py_json_dumps :: "json \<Rightarrow> string" where
  "py_json_dumps v = dumps_at 0 v"














subsection \<open>Stand-ins for the libraries and the endpoint\<close>

text \<open>
  Concrete values for the parameters, used to run the definitions: a decoder that
  rejects an exclamation mark and otherwise passes its input through, a text decoder
  that rejects the byte \<open>0xFF\<close>, a comma-separated reader, a spreadsheet reader that
  wants the \<^verbatim>\<open>PK\<close> signature, a JSON reader that knows four texts, among them
  \<^verbatim>\<open>[1e999]\<close>, whose number Python reads as the float infinity, and the serialiser
  above.
\<close>

definition stub_libs :: libs where
  "stub_libs =
     \<lparr>b64decode = (\<lambda>s. if CHR ''!'' \<in> set s then Inl (Exception ''Incorrect padding'') else Inr s),
      utf8_decode =
        (\<lambda>b. if CHR 0xFF \<in> set b then Inl (Exception ''invalid start byte'') else Inr b),
      read_csv =
        (\<lambda>t. if t = [] then Inl (Exception ''No columns to parse from file'')
             else Inr \<lparr>df_columns = split_sep (CHR '','') (hd (split_sep NL t)),
                       df_rows = map (split_sep (CHR '','')) (tl (split_sep NL t))\<rparr>),
      read_excel =
        (\<lambda>b. if take 2 b = ''PK'' then Inr \<lparr>df_columns = [''A''], df_rows = [[''1'']]\<rparr>
             else Inl (Exception ''File is not a zip file'')),
      to_string = (\<lambda>df. join_sep [NL] (map (join_sep '' '') (df_columns df # df_rows df))),
      json_loads =
        (\<lambda>t. if t = ''[]'' then Inr (JList [])
             else if t = ''[1, 2, 3]'' then Inr (JList [JInt 1, JInt 2, JInt 3])
             else if t = ''[1e999]'' then Inr (JList [JFloat PosInf])
             else if t = ''{}'' then Inr (JDict [])
             else Inl (Exception ''Expecting value'')),
      json_dumps = py_json_dumps\<rparr>"


text \<open>
  An endpoint that gives the same answer to every query, an unset one, one whose reply
  has empty content, one whose reply has no content, and one that answers with what it
  was sent: the endpoint name, the content of every message and the token limit.
\<close>

definition stub_env :: "exn + response \<Rightarrow> env" where
  "stub_env answer =
     \<lparr>SERVING_ENDPOINT = Some ''demo-endpoint'',
      SYSTEM_PROMPT = ''Describe the data.'',
      query = (\<lambda>earlier rq. answer)\<rparr>"

definition unset_env :: env where
  "unset_env = (stub_env (Inl (Exception ''unreachable'')))\<lparr>SERVING_ENDPOINT := None\<rparr>"

definition empty_reply_env :: env where
  "empty_reply_env = stub_env (Inr \<lparr>choices = Choices [Some (ReplyMessage (Some []))]\<rparr>)"

definition none_reply_env :: env where
  "none_reply_env = stub_env (Inr \<lparr>choices = Choices [Some (ReplyMessage None)]\<rparr>)"

definition echo :: "query_args \<Rightarrow> string" where
  "echo rq =
     q_name rq @ '': ''
     @ concat (map (\<lambda>cm. (case cm_content cm of None \<Rightarrow> ''None'' | Some c \<Rightarrow> c) @ ''; '')
                 (q_messages rq))
     @ show_nat (q_max_tokens rq)"

definition echo_env :: env where
  "echo_env =
     (stub_env (Inl (Exception ''unreachable'')))
       \<lparr>query := (\<lambda>earlier rq. Inr \<lparr>choices = Choices [Some (ReplyMessage (Some (echo rq)))]\<rparr>)\<rparr>"

definition world0 :: world where
  "world0 = \<lparr>gateway_calls = [], remote_requests = []\<rparr>"

definition two_messages :: "msg list" where
  "two_messages = [mk_msg ''user'' (Some ''hello''), mk_msg ''assistant'' (Some ''hi'')]"

definition page0 :: page where
  "page0 =
     \<lparr>chat_messages_children = [UserBubble (Some ''hello''), AssistantBubble (Some ''hi'')],
      message_input_value = Some '' '',
      conversation_history_data = Some two_messages,
      uploaded_file_data = None\<rparr>"

section \<open>Properties\<close>

subsection \<open>Text primitives\<close>

lemma split_sep_nonempty: "split_sep sep s \<noteq> []"
  by (induction s) (auto split: list.splits)

lemma join_split_sep: "join_sep [sep] (split_sep sep s) = s"
proof (induction s)
  case Nil
  then show ?case by simp
next
  case (Cons c cs)
  obtain p ps where ps: "split_sep sep cs = p # ps"
    using split_sep_nonempty [of sep cs] by (cases "split_sep sep cs") auto
  show ?case
  proof (cases "c = sep")
    case True
    with Cons ps show ?thesis by simp
  next
    case False
    with Cons ps show ?thesis by (cases ps) auto
  qed
qed

lemma all_dropWhile: "(\<forall>x \<in> set (dropWhile P xs). P x) \<longleftrightarrow> (\<forall>x \<in> set xs. P x)"
  by (induction xs) auto

lemma strip_empty_iff: "strip s = [] \<longleftrightarrow> (\<forall>c \<in> set s. is_space c)"
  by (simp add: strip_def dropWhile_eq_Nil_conv all_dropWhile)

lemma endswith_append: "endswith s suffix \<longleftrightarrow> (\<exists>p. s = p @ suffix)"
  unfolding endswith_def
  by (metis append_eq_conv_conj append_take_drop_id diff_add_inverse2 le_add2 length_append
      length_drop)

lemma endswith_json_not_others:
  assumes "endswith f ''.json''"
  shows "\<not> endswith f ''.csv''" "\<not> endswith f ''.xlsx''" "\<not> endswith f ''.xls''"
  using assms
  by (auto simp: endswith_append append_eq_append_conv2 Cons_eq_append_conv append_eq_Cons_conv)

subsection \<open>File Sampler\<close>

text \<open>Once the data URL splits into its two parts, the body is the dispatch on the extension.\<close>

lemma parse_file_content_try_split:
  assumes "split_sep (CHR '','') contents = [content_type, content_string]"
  shows "parse_file_content_try L contents filename =
     (case b64decode L content_string of
             Inl e \<Rightarrow> Inl e
           | Inr decoded \<Rightarrow>
               if endswith filename ''.csv'' then
                 (case utf8_decode L decoded of
                    Inl e \<Rightarrow> Inl e
                  | Inr text \<Rightarrow>
                      (case read_csv L text of
                         Inl e \<Rightarrow> Inl e
                       | Inr df \<Rightarrow>
                           Inr (''File: '' @ filename @ [NL]
                                @ ''Sample data (first 10 rows):'' @ [NL, NL]
                                @ to_string L (df_head 10 df))))
               else if endswith filename ''.xlsx'' \<or> endswith filename ''.xls'' then
                 (case read_excel L decoded of
                    Inl e \<Rightarrow> Inl e
                  | Inr df \<Rightarrow>
                      Inr (''File: '' @ filename @ [NL]
                           @ ''Sample data (first 10 rows):'' @ [NL, NL]
                           @ to_string L (df_head 10 df)))
               else if endswith filename ''.json'' then
                 (case utf8_decode L decoded of
                    Inl e \<Rightarrow> Inl e
                  | Inr text \<Rightarrow>
                      (case json_loads L text of
                         Inl e \<Rightarrow> Inl e
                       | Inr data \<Rightarrow>
                           Inr (''File: '' @ filename @ [NL]
                                @ ''Sample data:'' @ [NL, NL]
                                @ (case data of
                                     JList xs \<Rightarrow> json_dumps L (JList (take 10 xs))
                                   | _ \<Rightarrow> json_dumps L data))))
               else
                 (case utf8_decode L decoded of
                    Inl e \<Rightarrow> Inl e
                  | Inr text \<Rightarrow>
                      Inr (''File: '' @ filename @ [NL]
                           @ ''Sample data (first 10 lines):'' @ [NL, NL]
                           @ join_sep [NL] (take 10 (split_sep NL text)))))"
  unfolding parse_file_content_try_def using assms by simp



text \<open>What makes the body raise: the unpacking, the decoders and the readers.\<close>

lemma parse_file_content_try_raises:
  assumes "split_sep (CHR '','') contents = [content_type, content_string]"
  shows "b64decode L content_string = Inl e
           \<Longrightarrow> parse_file_content_try L contents filename = Inl e"
    and "b64decode L content_string = Inr decoded
           \<Longrightarrow> endswith filename ''.csv''
                 \<or> \<not> (endswith filename ''.xlsx'' \<or> endswith filename ''.xls'')
           \<Longrightarrow> utf8_decode L decoded = Inl e
           \<Longrightarrow> parse_file_content_try L contents filename = Inl e"
    and "b64decode L content_string = Inr decoded
           \<Longrightarrow> endswith filename ''.csv''
           \<Longrightarrow> utf8_decode L decoded = Inr text
           \<Longrightarrow> read_csv L text = Inl e
           \<Longrightarrow> parse_file_content_try L contents filename = Inl e"
    and "b64decode L content_string = Inr decoded
           \<Longrightarrow> \<not> endswith filename ''.csv''
           \<Longrightarrow> endswith filename ''.xlsx'' \<or> endswith filename ''.xls''
           \<Longrightarrow> read_excel L decoded = Inl e
           \<Longrightarrow> parse_file_content_try L contents filename = Inl e"
    and "b64decode L content_string = Inr decoded
           \<Longrightarrow> endswith filename ''.json''
           \<Longrightarrow> utf8_decode L decoded = Inr text
           \<Longrightarrow> json_loads L text = Inl e
           \<Longrightarrow> parse_file_content_try L contents filename = Inl e"
  using endswith_json_not_others [of filename]
  by (auto simp: parse_file_content_try_split [OF assms])

lemma parse_file_content_try_unpack:
  assumes "length (split_sep (CHR '','') contents) \<noteq> 2"
  shows "\<exists>m. parse_file_content_try L contents filename = Inl (ValueError m)"
  using assms unfolding parse_file_content_try_def
  by (auto split: list.splits)







text \<open>
  Claim C7. For a filename with none of the four extensions whose payload decodes as
  UTF-8 text, the preview is the filename line, the
  \<^verbatim>\<open>Sample data (first 10 lines):\<close> label and the first ten pieces of
  \<^verbatim>\<open>text.split('\n')\<close> joined with newlines; a text of at most ten lines is
  shown whole.
\<close>

theorem parse_file_content_plain_text:
  assumes "\<not> endswith filename ''.csv''" and "\<not> endswith filename ''.xlsx''"
    and "\<not> endswith filename ''.xls''" and "\<not> endswith filename ''.json''"
    and "split_sep (CHR '','') contents = [content_type, content_string]"
    and "b64decode L content_string = Inr decoded"
    and "utf8_decode L decoded = Inr text"
  shows "parse_file_content L contents filename
           = Inr (''File: '' @ filename @ [NL] @ ''Sample data (first 10 lines):'' @ [NL, NL]
                  @ join_sep [NL] (take 10 (split_sep NL text)))
         \<and> (length (split_sep NL text) \<le> 10
              \<longrightarrow> join_sep [NL] (take 10 (split_sep NL text)) = text)"
proof -
  have "parse_file_content_try L contents filename
           = Inr (''File: '' @ filename @ [NL] @ ''Sample data (first 10 lines):'' @ [NL, NL]
                  @ join_sep [NL] (take 10 (split_sep NL text)))"
    using assms by (simp add: parse_file_content_try_split [OF assms(5)])
  then show ?thesis by (simp add: parse_file_content_def join_split_sep)
qed

text \<open>A text file of three lines: all three are shown.\<close>

theorem parse_file_content_plain_text_witness:
  "parse_file_content stub_libs
      (''data:text/plain;base64,one'' @ [NL] @ ''two'' @ [NL] @ ''three'') ''notes.txt''
     = Inr (''File: notes.txt'' @ [NL] @ ''Sample data (first 10 lines):'' @ [NL, NL]
            @ ''one'' @ [NL] @ ''two'' @ [NL] @ ''three'')
   \<and> split_sep NL (''one'' @ [NL] @ ''two'' @ [NL] @ ''three'') = [''one'', ''two'', ''three'']"
proof -
  have 1: "\<not> endswith ''notes.txt'' ''.csv''" "\<not> endswith ''notes.txt'' ''.xlsx''"
    "\<not> endswith ''notes.txt'' ''.xls''" "\<not> endswith ''notes.txt'' ''.json''"
    by (simp_all add: endswith_def)
  have 2: "split_sep (CHR '','') (''data:text/plain;base64,one'' @ [NL] @ ''two'' @ [NL] @ ''three'')
             = [''data:text/plain;base64'', ''one'' @ [NL] @ ''two'' @ [NL] @ ''three'']"
    by simp
  have 3: "b64decode stub_libs (''one'' @ [NL] @ ''two'' @ [NL] @ ''three'')
             = Inr (''one'' @ [NL] @ ''two'' @ [NL] @ ''three'')"
    by (simp add: stub_libs_def)
  have 4: "utf8_decode stub_libs (''one'' @ [NL] @ ''two'' @ [NL] @ ''three'')
             = Inr (''one'' @ [NL] @ ''two'' @ [NL] @ ''three'')"
    by (simp add: stub_libs_def)
  from parse_file_content_plain_text [OF 1 2 3 4] show ?thesis by simp
qed



subsection \<open>Model Gateway\<close>

text \<open>On messages that hold both keys the two loops run to their end, one entry per message.\<close>

lemma chat_loop_has_role_content:
  assumes "list_all has_role_content ms"
  shows "\<exists>cms. chat_loop acc ms = Inr (acc @ cms)
           \<and> list_all2 (\<lambda>m cm. m ''content'' = Some (cm_content cm)
                              \<and> cm_role cm
                                  = (if m ''role'' = Some (Some ''user'') then USER else ASSISTANT))
                ms cms"
  using assms
proof (induction ms arbitrary: acc)
  case Nil
  then show ?case by simp
next
  case (Cons m ms)
  from Cons.prems obtain r c where rc: "m ''role'' = Some r" "m ''content'' = Some c"
    by (auto simp: has_role_content_def)
  let ?cm = "ChatMessage (if r = Some ''user'' then USER else ASSISTANT) c"
  from Cons.prems have "list_all has_role_content ms" by simp
  from Cons.IH [OF this, of "acc @ [?cm]"] obtain cms where
    cms: "chat_loop (acc @ [?cm]) ms = Inr ((acc @ [?cm]) @ cms)"
      "list_all2 (\<lambda>m cm. m ''content'' = Some (cm_content cm)
                              \<and> cm_role cm
                                  = (if m ''role'' = Some (Some ''user'') then USER else ASSISTANT))
                ms cms"
    by blast
  have "chat_loop acc (m # ms) = Inr (acc @ (?cm # cms))"
    using rc cms(1) by (simp add: subscript_def)
  moreover have "list_all2 (\<lambda>m cm. m ''content'' = Some (cm_content cm)
                              \<and> cm_role cm
                                  = (if m ''role'' = Some (Some ''user'') then USER else ASSISTANT))
                (m # ms) (?cm # cms)"
    using rc cms(2) by simp
  ultimately show ?case by blast
qed

lemma render_loop_has_role_content:
  assumes "list_all has_role_content ms"
  shows "\<exists>cs. render_loop acc ms = Inr (acc @ cs) \<and> length cs = length ms"
  using assms
proof (induction ms arbitrary: acc)
  case Nil
  then show ?case by simp
next
  case (Cons m ms)
  from Cons.prems obtain r c where rc: "m ''role'' = Some r" "m ''content'' = Some c"
    by (auto simp: has_role_content_def)
  let ?b = "if r = Some ''user'' then UserBubble c else AssistantBubble c"
  from Cons.prems have "list_all has_role_content ms" by simp
  from Cons.IH [OF this, of "acc @ [?b]"] obtain cs where
    cs: "render_loop (acc @ [?b]) ms = Inr ((acc @ [?b]) @ cs)" "length cs = length ms"
    by blast
  have "render_loop acc (m # ms) = Inr (acc @ (?b # cs))"
    using rc cs(1) by (simp add: subscript_def)
  then show ?case using cs(2) by (intro exI [of _ "?b # cs"]) simp
qed

lemma has_role_content_mk_msg: "has_role_content (mk_msg r c)"
  by (simp add: has_role_content_def mk_msg_def)

text \<open>The ways through \<^verbatim>\<open>call_databricks_model\<close>.\<close>

lemma call_databricks_model_unset:
  assumes "endpoint_unset E"
  shows "call_databricks_model E W messages =
           (Inr (Some (''Error: DATABRICKS_SERVING_ENDPOINT is not set. ''
                       @ ''Add it to your .env file for local development, ''
                       @ ''or ensure the app is deployed with a serving endpoint resource.'')),
            W\<lparr>gateway_calls := gateway_calls W @ [messages]\<rparr>)"
  using assms by (simp add: call_databricks_model_def)

lemma call_databricks_model_build_fails:
  assumes "\<not> endpoint_unset E" and "build_request E messages = Inl e"
  shows "call_databricks_model E W messages =
           (Inr (Some (''Error calling model: '' @ str_exn e)),
            W\<lparr>gateway_calls := gateway_calls W @ [messages]\<rparr>)"
  using assms by (simp add: call_databricks_model_def call_databricks_model_try_def)

lemma call_databricks_model_sends:
  assumes "\<not> endpoint_unset E" and "build_request E messages = Inr rq"
  shows "call_databricks_model E W messages =
           (case query E (remote_requests W) rq of
              Inl e \<Rightarrow> Inr (Some (''Error calling model: '' @ str_exn e))
            | Inr rsp \<Rightarrow>
                (case extract_reply rsp of
                   Inl e \<Rightarrow> Inr (Some (''Error calling model: '' @ str_exn e))
                 | Inr reply \<Rightarrow> Inr reply),
            W\<lparr>gateway_calls := gateway_calls W @ [messages],
              remote_requests := remote_requests W @ [rq]\<rparr>)"
  using assms
  by (simp add: call_databricks_model_def call_databricks_model_try_def
      serving_endpoints_query_def split: sum.splits)

lemma call_databricks_model_returns:
  "\<exists>reply W'. call_databricks_model E W messages = (Inr reply, W')"
proof (cases "endpoint_unset E")
  case True
  then show ?thesis using call_databricks_model_unset by blast
next
  case False
  show ?thesis
  proof (cases "build_request E messages")
    case (Inl e)
    with False show ?thesis using call_databricks_model_build_fails by blast
  next
    case (Inr rq)
    from call_databricks_model_sends [OF False Inr, of W] show ?thesis
      by (auto split: sum.splits)
  qed
qed

lemma extract_reply_cases:
  "(case extract_reply rsp of
      Inl e \<Rightarrow> Inr (Some (''Error calling model: '' @ str_exn e))
    | Inr reply \<Rightarrow> Inr reply)
   = (case choices rsp of
        NoAttribute \<Rightarrow> Inr (Some ''Sorry, I couldn't process that request.'')
      | ChoicesNone \<Rightarrow> Inr (Some (''Error calling model: '' @ none_has_no_len))
      | Choices [] \<Rightarrow> Inr (Some ''Sorry, I couldn't process that request.'')
      | Choices (None # cs) \<Rightarrow> Inr (Some (''Error calling model: '' @ none_has_no_content))
      | Choices (Some (ReplyMessage content) # cs) \<Rightarrow> (Inr content :: exn + string option))"
  by (simp add: extract_reply_def split: choices_attr.splits list.splits option.splits
      reply_message.splits)

text \<open>
  Claim C1, as amended. For every conversation, \<^verbatim>\<open>call_databricks_model\<close> returns
  and never raises. With the endpoint unset it returns the configuration message. When
  building the request, the remote call or the reading of the response raises \<open>e\<close>
  (\<^verbatim>\<open>choices\<close> is \<^verbatim>\<open>None\<close>, or the first choice has no message), it returns
  \<^verbatim>\<open>Error calling model: \<close> followed by \<^verbatim>\<open>str(e)\<close>. When the response has no
  choices it returns the fallback sentence. Otherwise it returns the content of the
  first choice as the endpoint sent it. So the value is a non-empty text, except that a
  first choice whose content is empty or \<^verbatim>\<open>None\<close> comes back as it is.
\<close>

theorem call_databricks_model_text:
  "\<exists>reply W'. call_databricks_model E W messages = (Inr reply, W')
     \<and> (endpoint_unset E \<longrightarrow>
          reply = Some (''Error: DATABRICKS_SERVING_ENDPOINT is not set. ''
                        @ ''Add it to your .env file for local development, ''
                        @ ''or ensure the app is deployed with a serving endpoint resource.''))
     \<and> (\<forall>e. \<not> endpoint_unset E \<and> build_request E messages = Inl e
            \<longrightarrow> reply = Some (''Error calling model: '' @ str_exn e))
     \<and> (\<forall>rq e. \<not> endpoint_unset E \<and> build_request E messages = Inr rq
              \<and> query E (remote_requests W) rq = Inl e
            \<longrightarrow> reply = Some (''Error calling model: '' @ str_exn e))
     \<and> (\<forall>rq rsp. \<not> endpoint_unset E \<and> build_request E messages = Inr rq
              \<and> query E (remote_requests W) rq = Inr rsp
            \<longrightarrow> reply =
                  (case choices rsp of
                     NoAttribute \<Rightarrow> Some ''Sorry, I couldn't process that request.''
                   | ChoicesNone \<Rightarrow> Some (''Error calling model: '' @ none_has_no_len)
                   | Choices [] \<Rightarrow> Some ''Sorry, I couldn't process that request.''
                   | Choices (None # cs) \<Rightarrow> Some (''Error calling model: '' @ none_has_no_content)
                   | Choices (Some (ReplyMessage content) # cs) \<Rightarrow> content))
     \<and> (reply = None \<or> reply = Some [] \<longrightarrow>
          (\<exists>rq rsp cs. \<not> endpoint_unset E \<and> build_request E messages = Inr rq
             \<and> query E (remote_requests W) rq = Inr rsp
             \<and> choices rsp = Choices (Some (ReplyMessage reply) # cs)))"
proof (cases "endpoint_unset E")
  case True
  then show ?thesis using call_databricks_model_unset [OF True, of W messages] by simp
next
  case False
  show ?thesis
  proof (cases "build_request E messages")
    case (Inl e)
    with False show ?thesis
      using call_databricks_model_build_fails [OF False Inl, of W] by simp
  next
    case (Inr rq)
    note sends = call_databricks_model_sends [OF False Inr, of W]
    show ?thesis
    proof (cases "query E (remote_requests W) rq")
      case (Inl e)
      with False Inr sends show ?thesis by simp
    next
      case r: (Inr rsp)
      have "call_databricks_model E W messages =
              (case choices rsp of
                 NoAttribute \<Rightarrow> Inr (Some ''Sorry, I couldn't process that request.'')
               | ChoicesNone \<Rightarrow> Inr (Some (''Error calling model: '' @ none_has_no_len))
               | Choices [] \<Rightarrow> Inr (Some ''Sorry, I couldn't process that request.'')
               | Choices (None # cs) \<Rightarrow>
                   Inr (Some (''Error calling model: '' @ none_has_no_content))
               | Choices (Some (ReplyMessage content) # cs) \<Rightarrow> Inr content,
               W\<lparr>gateway_calls := gateway_calls W @ [messages],
                 remote_requests := remote_requests W @ [rq]\<rparr>)"
        using sends r by (simp add: extract_reply_cases)
      with False Inr r show ?thesis
        by (auto split: choices_attr.splits list.splits option.splits reply_message.splits)
    qed
  qed
qed

lemma stub_env_set: "\<not> endpoint_unset (stub_env a)"
  by (simp add: endpoint_unset_def stub_env_def)

lemma build_request_stub_env_empty:
  "build_request (stub_env a) [] =
     Inr \<lparr>q_name = ''demo-endpoint'',
          q_messages = [ChatMessage SYSTEM (Some ''Describe the data.'')],
          q_max_tokens = 2000\<rparr>"
  by (simp add: build_request_def stub_env_def)

text \<open>
  A remote call that fails, a response whose choices are \<^verbatim>\<open>None\<close>, one without
  choices, one whose first choice has no message, and a reply.
\<close>

theorem call_databricks_model_text_witness:
  "fst (call_databricks_model (stub_env (Inl (Exception ''timed out''))) world0 [])
     = Inr (Some ''Error calling model: timed out'')
   \<and> fst (call_databricks_model (stub_env (Inr \<lparr>choices = ChoicesNone\<rparr>)) world0 [])
     = Inr (Some (''Error calling model: '' @ none_has_no_len))
   \<and> fst (call_databricks_model (stub_env (Inr \<lparr>choices = Choices []\<rparr>)) world0 [])
     = Inr (Some ''Sorry, I couldn't process that request.'')
   \<and> fst (call_databricks_model (stub_env (Inr \<lparr>choices = Choices [None]\<rparr>)) world0 [])
     = Inr (Some (''Error calling model: '' @ none_has_no_content))
   \<and> fst (call_databricks_model
            (stub_env (Inr \<lparr>choices = Choices [Some (ReplyMessage (Some ''A table of trips.''))]\<rparr>))
            world0 [])
     = Inr (Some ''A table of trips.'')"
proof -
  let ?rq = "\<lparr>q_name = ''demo-endpoint'',
              q_messages = [ChatMessage SYSTEM (Some ''Describe the data.'')],
              q_max_tokens = 2000\<rparr>"
  have q: "\<And>a. query (stub_env a) (remote_requests world0) ?rq = a"
    by (simp add: stub_env_def)
  from call_databricks_model_text [of "stub_env (Inl (Exception ''timed out''))" world0 "[]"]
  have 1: "fst (call_databricks_model (stub_env (Inl (Exception ''timed out''))) world0 [])
     = Inr (Some ''Error calling model: timed out'')"
    using stub_env_set build_request_stub_env_empty q by fastforce
  from call_databricks_model_text [of "stub_env (Inr \<lparr>choices = ChoicesNone\<rparr>)" world0 "[]"]
  have 2: "fst (call_databricks_model (stub_env (Inr \<lparr>choices = ChoicesNone\<rparr>)) world0 [])
     = Inr (Some (''Error calling model: '' @ none_has_no_len))"
    using stub_env_set build_request_stub_env_empty q by fastforce
  from call_databricks_model_text [of "stub_env (Inr \<lparr>choices = Choices []\<rparr>)" world0 "[]"]
  have 3: "fst (call_databricks_model (stub_env (Inr \<lparr>choices = Choices []\<rparr>)) world0 [])
     = Inr (Some ''Sorry, I couldn't process that request.'')"
    using stub_env_set build_request_stub_env_empty q by fastforce
  from call_databricks_model_text [of "stub_env (Inr \<lparr>choices = Choices [None]\<rparr>)" world0 "[]"]
  have 4: "fst (call_databricks_model (stub_env (Inr \<lparr>choices = Choices [None]\<rparr>)) world0 [])
     = Inr (Some (''Error calling model: '' @ none_has_no_content))"
    using stub_env_set build_request_stub_env_empty q by fastforce
  from call_databricks_model_text
    [of "stub_env (Inr \<lparr>choices = Choices [Some (ReplyMessage (Some ''A table of trips.''))]\<rparr>)"
        world0 "[]"]
  have 5: "fst (call_databricks_model
            (stub_env (Inr \<lparr>choices = Choices [Some (ReplyMessage (Some ''A table of trips.''))]\<rparr>))
            world0 [])
     = Inr (Some ''A table of trips.'')"
    using stub_env_set build_request_stub_env_empty q by fastforce
  from 1 2 3 4 5 show ?thesis by blast
qed

text \<open>
  Claim C1 as stated fails: an endpoint whose first choice has empty content makes the
  gateway return the empty text, and one whose first choice has no content makes it
  return \<^verbatim>\<open>None\<close>, which is no text at all.
\<close>

theorem call_databricks_model_empty_reply:
  "fst (call_databricks_model empty_reply_env world0 []) = Inr (Some [])
   \<and> fst (call_databricks_model none_reply_env world0 []) = Inr None"
  by (simp add: call_databricks_model_def call_databricks_model_try_def build_request_def
      serving_endpoints_query_def extract_reply_def empty_reply_env_def none_reply_env_def
      stub_env_def endpoint_unset_def world0_def)

text \<open>
  Claim C3. With the endpoint set, a call on a conversation of role/content messages
  hands the endpoint one query: the configured name, \<^verbatim>\<open>max_tokens=2000\<close>, and as
  messages the system prompt followed by one chat message per conversation message, in
  order, none left out, each with the content of its message and the role
  \<^verbatim>\<open>USER\<close> for \<^verbatim>\<open>'user'\<close> and \<^verbatim>\<open>ASSISTANT\<close> otherwise. What the gateway
  returns is the endpoint's answer to that very query, and the query is the one the
  world records as received.
\<close>

theorem call_databricks_model_request:
  assumes "\<not> endpoint_unset E" and "list_all has_role_content messages"
  shows "\<exists>rq cms.
           SERVING_ENDPOINT E = Some (q_name rq)
           \<and> q_max_tokens rq = 2000
           \<and> q_messages rq = ChatMessage SYSTEM (Some (SYSTEM_PROMPT E)) # cms
           \<and> length cms = length messages
           \<and> list_all2 (\<lambda>m cm. m ''content'' = Some (cm_content cm)
                              \<and> cm_role cm
                                  = (if m ''role'' = Some (Some ''user'') then USER else ASSISTANT))
                messages cms
           \<and> call_databricks_model E W messages
               = (case query E (remote_requests W) rq of
                    Inl e \<Rightarrow> Inr (Some (''Error calling model: '' @ str_exn e))
                  | Inr rsp \<Rightarrow>
                      (case extract_reply rsp of
                         Inl e \<Rightarrow> Inr (Some (''Error calling model: '' @ str_exn e))
                       | Inr reply \<Rightarrow> Inr reply),
                  W\<lparr>gateway_calls := gateway_calls W @ [messages],
                    remote_requests := remote_requests W @ [rq]\<rparr>)"
proof -
  from chat_loop_has_role_content
    [OF assms(2), of "[ChatMessage SYSTEM (Some (SYSTEM_PROMPT E))]"]
  obtain cms where cms:
    "chat_loop [ChatMessage SYSTEM (Some (SYSTEM_PROMPT E))] messages
       = Inr ([ChatMessage SYSTEM (Some (SYSTEM_PROMPT E))] @ cms)"
    "list_all2 (\<lambda>m cm. m ''content'' = Some (cm_content cm)
                              \<and> cm_role cm
                                  = (if m ''role'' = Some (Some ''user'') then USER else ASSISTANT))
                messages cms"
    by blast
  obtain n where n: "SERVING_ENDPOINT E = Some n"
    using assms(1) by (auto simp: endpoint_unset_def split: option.splits)
  let ?rq = "\<lparr>q_name = n, q_messages = ChatMessage SYSTEM (Some (SYSTEM_PROMPT E)) # cms,
                q_max_tokens = 2000\<rparr>"
  have b: "build_request E messages = Inr ?rq"
    using cms(1) n by (simp add: build_request_def)
  have len: "length cms = length messages"
    using cms(2) by (simp add: list_all2_lengthD)
  from call_databricks_model_sends [OF assms(1) b, of W] n cms(2) len
  show ?thesis by (intro exI [of _ ?rq] exI [of _ cms]) simp
qed

text \<open>
  An endpoint that answers with what it was sent: the reply names the endpoint, the
  system prompt, both messages in order and the limit of 2000.
\<close>

theorem call_databricks_model_request_witness:
  "\<not> endpoint_unset echo_env \<and> list_all has_role_content two_messages
   \<and> call_databricks_model echo_env world0 two_messages
       = (Inr (Some ''demo-endpoint: Describe the data.; hello; hi; 2000''),
          \<lparr>gateway_calls = [two_messages],
           remote_requests =
             [\<lparr>q_name = ''demo-endpoint'',
               q_messages = [ChatMessage SYSTEM (Some ''Describe the data.''),
                             ChatMessage USER (Some ''hello''),
                             ChatMessage ASSISTANT (Some ''hi'')],
               q_max_tokens = 2000\<rparr>]\<rparr>)"
proof -
  have 1: "\<not> endpoint_unset echo_env"
    by (simp add: echo_env_def endpoint_unset_def stub_env_def)
  have 2: "list_all has_role_content two_messages"
    by (simp add: two_messages_def has_role_content_mk_msg)
  from call_databricks_model_request [OF 1 2, of world0]
  obtain rq cms where r:
    "SERVING_ENDPOINT echo_env = Some (q_name rq)"
    "q_max_tokens rq = 2000"
    "q_messages rq = ChatMessage SYSTEM (Some (SYSTEM_PROMPT echo_env)) # cms"
    "list_all2 (\<lambda>m cm. m ''content'' = Some (cm_content cm)
                              \<and> cm_role cm
                                  = (if m ''role'' = Some (Some ''user'') then USER else ASSISTANT))
                two_messages cms"
    "call_databricks_model echo_env world0 two_messages
               = (case query echo_env (remote_requests world0) rq of
                    Inl e \<Rightarrow> Inr (Some (''Error calling model: '' @ str_exn e))
                  | Inr rsp \<Rightarrow>
                      (case extract_reply rsp of
                         Inl e \<Rightarrow> Inr (Some (''Error calling model: '' @ str_exn e))
                       | Inr reply \<Rightarrow> Inr reply),
                  world0\<lparr>gateway_calls := gateway_calls world0 @ [two_messages],
                    remote_requests := remote_requests world0 @ [rq]\<rparr>)"
    by blast
  from r(4) obtain a b where ab: "cms = [a, b]"
    "cm_content a = Some ''hello''" "cm_role a = USER"
    "cm_content b = Some ''hi''" "cm_role b = ASSISTANT"
    by (auto simp: two_messages_def mk_msg_def list_all2_Cons1)
  have a: "a = ChatMessage USER (Some ''hello'')" using ab(2,3) by (cases a) simp
  have b: "b = ChatMessage ASSISTANT (Some ''hi'')" using ab(4,5) by (cases b) simp
  have rq: "rq = \<lparr>q_name = ''demo-endpoint'',
               q_messages = [ChatMessage SYSTEM (Some ''Describe the data.''),
                             ChatMessage USER (Some ''hello''),
                             ChatMessage ASSISTANT (Some ''hi'')],
               q_max_tokens = 2000\<rparr>"
    using r(1,2,3) ab(1) a b by (cases rq) (simp add: echo_env_def stub_env_def)
  have s: "show_nat 2000 = ''2000''"
    by (simp add: show_nat.simps [of 2000] show_nat.simps [of 200] show_nat.simps [of 20]
        show_nat.simps [of 2])
  have "query echo_env (remote_requests world0) rq
          = Inr \<lparr>choices = Choices [Some (ReplyMessage
                     (Some ''demo-endpoint: Describe the data.; hello; hi; 2000''))]\<rparr>"
    unfolding rq by (simp add: echo_env_def stub_env_def echo_def s)
  with r(5) rq 1 2 show ?thesis by (simp add: extract_reply_def world0_def)
qed

text \<open>
  Claim C8. With the endpoint unset, a call on any conversation returns a text that
  contains \<^verbatim>\<open>DATABRICKS_SERVING_ENDPOINT\<close>, raises nothing and sends no query.
\<close>

theorem call_databricks_model_endpoint_unset:
  assumes "endpoint_unset E"
  shows "\<exists>text pre post.
           call_databricks_model E W messages
             = (Inr (Some text), W\<lparr>gateway_calls := gateway_calls W @ [messages]\<rparr>)
           \<and> text = pre @ ''DATABRICKS_SERVING_ENDPOINT'' @ post
           \<and> remote_requests (snd (call_databricks_model E W messages)) = remote_requests W"
  using call_databricks_model_unset [OF assms, of W messages]
  by (intro exI [of _ "''Error: DATABRICKS_SERVING_ENDPOINT is not set. ''
                 @ ''Add it to your .env file for local development, ''
                 @ ''or ensure the app is deployed with a serving endpoint resource.''"]
        exI [of _ "''Error: ''"]
        exI [of _ "'' is not set. ''
                 @ ''Add it to your .env file for local development, ''
                 @ ''or ensure the app is deployed with a serving endpoint resource.''"]) simp

text \<open>The empty conversation with no endpoint.\<close>

theorem call_databricks_model_endpoint_unset_witness:
  "endpoint_unset unset_env
   \<and> call_databricks_model unset_env world0 []
       = (Inr (Some (''Error: DATABRICKS_SERVING_ENDPOINT is not set. ''
                     @ ''Add it to your .env file for local development, ''
                     @ ''or ensure the app is deployed with a serving endpoint resource.'')),
          \<lparr>gateway_calls = [[]], remote_requests = []\<rparr>)"
proof -
  have 1: "endpoint_unset unset_env"
    by (simp add: unset_env_def endpoint_unset_def stub_env_def)
  from call_databricks_model_endpoint_unset [OF 1, of world0 "[]"]
  obtain t p q where t:
    "call_databricks_model unset_env world0 []
       = (Inr (Some t), world0\<lparr>gateway_calls := gateway_calls world0 @ [[]]\<rparr>)"
    by blast
  moreover have "fst (call_databricks_model unset_env world0 [])
       = Inr (Some (''Error: DATABRICKS_SERVING_ENDPOINT is not set. ''
                     @ ''Add it to your .env file for local development, ''
                     @ ''or ensure the app is deployed with a serving endpoint resource.''))"
    using 1 by (simp add: call_databricks_model_def)
  ultimately show ?thesis using 1 by (simp add: world0_def)
qed

lemma chat_loop_missing_role:
  assumes "m ''role'' = None"
  shows "\<exists>k. chat_loop acc (ms @ [m]) = Inl (KeyError k)"
proof (induction ms arbitrary: acc)
  case Nil
  then show ?case using assms by (simp add: subscript_def)
next
  case (Cons a ms)
  then show ?case by (auto simp: subscript_def split: option.splits)
qed

text \<open>
  A conversation whose last message has no \<^verbatim>\<open>role\<close> key: the
  \<^verbatim>\<open>KeyError\<close> of the loop is caught, the gateway returns
  \<^verbatim>\<open>Error calling model: \<close> followed by the quoted key, and no query is sent.
\<close>

theorem call_databricks_model_key_error:
  assumes "\<not> endpoint_unset E" and "m ''role'' = None"
  shows "\<exists>k. call_databricks_model E W (ms @ [m])
           = (Inr (Some (''Error calling model: '' @ [QUOTE] @ k @ [QUOTE])),
              W\<lparr>gateway_calls := gateway_calls W @ [ms @ [m]]\<rparr>)"
proof -
  from chat_loop_missing_role
    [where m = m and acc = "[ChatMessage SYSTEM (Some (SYSTEM_PROMPT E))]" and ms = ms,
     OF assms(2)]
  obtain k where
    "chat_loop [ChatMessage SYSTEM (Some (SYSTEM_PROMPT E))] (ms @ [m]) = Inl (KeyError k)"
    by blast
  then have "build_request E (ms @ [m]) = Inl (KeyError k)"
    by (simp add: build_request_def)
  from call_databricks_model_build_fails [OF assms(1) this, of W] show ?thesis by auto
qed

text \<open>A single message with a content and no role.\<close>

theorem call_databricks_model_key_error_witness:
  "call_databricks_model empty_reply_env world0 [[''content'' \<mapsto> Some ''hello'']]
     = (Inr (Some (''Error calling model: '' @ [QUOTE] @ ''role'' @ [QUOTE])),
        \<lparr>gateway_calls = [[[''content'' \<mapsto> Some ''hello'']]], remote_requests = []\<rparr>)"
proof -
  have 1: "\<not> endpoint_unset empty_reply_env"
    by (simp add: empty_reply_env_def stub_env_set)
  have 2: "[''content'' \<mapsto> Some ''hello''] ''role'' = None" by simp
  from call_databricks_model_key_error
    [where E = empty_reply_env and m = "[''content'' \<mapsto> Some ''hello'']" and W = world0
       and ms = "[]", OF 1 2]
  obtain k where k:
    "call_databricks_model empty_reply_env world0 [[''content'' \<mapsto> Some ''hello'']]
       = (Inr (Some (''Error calling model: '' @ [QUOTE] @ k @ [QUOTE])),
          world0\<lparr>gateway_calls := gateway_calls world0 @ [[[''content'' \<mapsto> Some ''hello'']]]\<rparr>)"
    by auto
  have "fst (call_databricks_model empty_reply_env world0 [[''content'' \<mapsto> Some ''hello'']])
          = Inr (Some (''Error calling model: '' @ [QUOTE] @ ''role'' @ [QUOTE]))"
    using 1 by (simp add: call_databricks_model_def call_databricks_model_try_def
        build_request_def subscript_def)
  with k show ?thesis by (simp add: world0_def)
qed

subsection \<open>The callbacks and the Conversation Store\<close>

lemma send_message_blank:
  assumes "message = None \<or> (\<exists>s. message = Some s \<and> (\<forall>c \<in> set s. is_space c))"
  shows "send_message E W n_clicks message conversation
           = (Inr (no_update, no_update, no_update), W)"
  using assms by (auto simp: send_message_def strip_empty_iff)

text \<open>
  Claim C10. When the message is \<^verbatim>\<open>None\<close>, empty or all whitespace,
  \<^verbatim>\<open>send_message\<close> returns \<^verbatim>\<open>no_update\<close> for its three outputs and
  leaves the record of gateway calls and remote queries as it was; the page, the
  conversation history and the chat children among it, is unchanged by the click.
\<close>

theorem send_message_blank_no_update:
  assumes "message = None \<or> (\<exists>s. message = Some s \<and> (\<forall>c \<in> set s. is_space c))"
  shows "send_message E W n_clicks message conversation
           = (Inr (no_update, no_update, no_update), W)
         \<and> on_send_click E n_clicks
              (W, \<lparr>chat_messages_children = children, message_input_value = message,
                   conversation_history_data = conversation, uploaded_file_data = upload\<rparr>)
           = (W, \<lparr>chat_messages_children = children, message_input_value = message,
                   conversation_history_data = conversation, uploaded_file_data = upload\<rparr>)"
  using send_message_blank [OF assms]
  by (simp add: on_send_click_def write_output_def)

text \<open>A message of a space, a tab and a newline; no message; the empty message.\<close>

theorem send_message_blank_no_update_witness:
  "(\<exists>s. Some [CHR '' '', CHR 0x09, NL] = Some s \<and> list_all is_space s)
   \<and> send_message empty_reply_env world0 3 (Some [CHR '' '', CHR 0x09, NL]) (Some two_messages)
       = (Inr (no_update, no_update, no_update), world0)
   \<and> send_message empty_reply_env world0 1 None (Some two_messages)
       = (Inr (no_update, no_update, no_update), world0)
   \<and> send_message empty_reply_env world0 2 (Some []) None
       = (Inr (no_update, no_update, no_update), world0)"
proof -
  have 1: "Some [CHR '' '', CHR 0x09, NL] = None
           \<or> (\<exists>s. Some [CHR '' '', CHR 0x09, NL] = Some s \<and> (\<forall>c \<in> set s. is_space c))"
    by (simp add: is_space_def)
  have 2: "(None :: string option) = None
           \<or> (\<exists>s. (None :: string option) = Some s \<and> (\<forall>c \<in> set s. is_space c))"
    by simp
  have 3: "Some [] = None \<or> (\<exists>s. Some [] = Some s \<and> (\<forall>c \<in> set s. is_space c))"
    by simp
  from send_message_blank_no_update [OF 1, of empty_reply_env world0 3 "Some two_messages"]
    send_message_blank_no_update [OF 2, of empty_reply_env world0 1 "Some two_messages"]
    send_message_blank_no_update [OF 3, of empty_reply_env world0 2 None]
  show ?thesis by (simp add: is_space_def)
qed

lemma append_turns_eq: "append_turns conversation ts = conversation @ map msg_of_turn ts"
  by (induction conversation ts rule: append_turns.induct)
     (simp_all add: append_user_def append_assistant_def)

lemma parse_file_content_returns: "\<exists>s. parse_file_content L contents filename = Inr s"
  by (simp add: parse_file_content_def split: sum.splits)

lemma send_message_round_trip:
  assumes "strip message \<noteq> []" and "list_all has_role_content conversation"
  shows "\<exists>reply messages W'.
           call_databricks_model E W (conversation @ [mk_msg ''user'' (Some message)]) = (Inr reply, W')
           \<and> send_message E W n_clicks (Some message) (Some conversation)
               = (Inr (Update messages, Update [],
                       Update (conversation @ [mk_msg ''user'' (Some message), mk_msg ''assistant'' reply])),
                  W')"
proof -
  obtain reply W' where g:
    "call_databricks_model E W (conversation @ [mk_msg ''user'' (Some message)]) = (Inr reply, W')"
    using call_databricks_model_returns by blast
  let ?c3 = "conversation @ [mk_msg ''user'' (Some message), mk_msg ''assistant'' reply]"
  have "list_all has_role_content ?c3"
    using assms(2) by (simp add: has_role_content_mk_msg)
  from render_loop_has_role_content [OF this, of "[]"]
  obtain cs where cs: "render_loop [] ?c3 = Inr cs" by auto
  have ne: "message \<noteq> []" using assms(1) by (auto simp: strip_def)
  have "send_message E W n_clicks (Some message) (Some conversation)
               = (Inr (Update cs, Update [], Update ?c3), W')"
    using assms(1) ne g cs
    by (simp add: send_message_def append_user_def append_assistant_def)
  with g show ?thesis by blast
qed

lemma handle_file_upload_round_trip:
  assumes "list_all has_role_content conversation"
  shows "\<exists>file_content reply messages W'.
           parse_file_content L contents filename = Inr file_content
           \<and> handle_file_upload L E W (Some contents) filename (Some conversation)
               = (Inr (Update (Some file_content), Update messages,
                       Update (conversation
                               @ [mk_msg ''user''
                                    (Some (''[File uploaded: '' @ filename @ '']'' @ [NL, NL] @ file_content)),
                                  mk_msg ''assistant'' reply])),
                  W')"
proof -
  obtain file_content where f: "parse_file_content L contents filename = Inr file_content"
    using parse_file_content_returns by blast
  let ?u = "mk_msg ''user'' (Some (''[File uploaded: '' @ filename @ '']'' @ [NL, NL] @ file_content))"
  obtain reply W' where g:
    "call_databricks_model E W (conversation @ [?u]) = (Inr reply, W')"
    using call_databricks_model_returns by blast
  let ?c3 = "conversation @ [?u, mk_msg ''assistant'' reply]"
  have "list_all has_role_content ?c3"
    using assms by (simp add: has_role_content_mk_msg)
  from render_loop_has_role_content [OF this, of "[]"]
  obtain cs where cs: "render_loop [] ?c3 = Inr cs" by auto
  have "handle_file_upload L E W (Some contents) filename (Some conversation)
               = (Inr (Update (Some file_content), Update cs, Update ?c3), W')"
    using f g cs
    by (simp add: handle_file_upload_def append_user_def append_assistant_def)
  with f show ?thesis by blast
qed

text \<open>
  Claim C4, as amended. A run of appends leaves the earlier entries in place and adds
  its messages in order, so \<open>N\<close> appends to the empty conversation give \<open>N\<close>
  entries. One \<^verbatim>\<open>send_message\<close> round trip with a message that has a character
  other than whitespace, on a conversation of role/content messages, returns the
  conversation followed by the user message and the assistant reply: from two entries,
  four, the third the user message, the fourth the reply, the first two as before. A
  file upload adds its two messages at the end in the same way.
\<close>

theorem conversation_append_only:
  assumes "strip message \<noteq> []" and "list_all has_role_content conversation"
  shows "append_turns conversation ts = conversation @ map msg_of_turn ts
         \<and> length (append_turns [] ts) = length ts
         \<and> (\<exists>reply messages W'.
               call_databricks_model E W (conversation @ [mk_msg ''user'' (Some message)])
                 = (Inr reply, W')
               \<and> send_message E W n_clicks (Some message) (Some conversation)
                 = (Inr (Update messages, Update [],
                         Update (conversation
                                 @ [mk_msg ''user'' (Some message), mk_msg ''assistant'' reply])),
                    W')
               \<and> (length conversation = 2 \<longrightarrow>
                    length (conversation @ [mk_msg ''user'' (Some message), mk_msg ''assistant'' reply]) = 4
                    \<and> (conversation @ [mk_msg ''user'' (Some message), mk_msg ''assistant'' reply]) ! 2
                        = mk_msg ''user'' (Some message)
                    \<and> (conversation @ [mk_msg ''user'' (Some message), mk_msg ''assistant'' reply]) ! 3
                        = mk_msg ''assistant'' reply
                    \<and> take 2 (conversation @ [mk_msg ''user'' (Some message), mk_msg ''assistant'' reply])
                        = conversation))
         \<and> (\<exists>file_content reply messages W'.
               handle_file_upload L E W (Some contents) filename (Some conversation)
                 = (Inr (Update (Some file_content), Update messages,
                         Update (conversation
                                 @ [mk_msg ''user''
                                      (Some (''[File uploaded: '' @ filename @ '']'' @ [NL, NL]
                                             @ file_content)),
                                    mk_msg ''assistant'' reply])),
                    W'))"
proof -
  have a: "append_turns conversation ts = conversation @ map msg_of_turn ts"
    by (rule append_turns_eq)
  have b: "length (append_turns [] ts) = length ts"
    by (simp add: append_turns_eq)
  from send_message_round_trip [OF assms, of E W n_clicks]
  obtain reply messages W' where
    g: "call_databricks_model E W (conversation @ [mk_msg ''user'' (Some message)])
          = (Inr reply, W')"
    and s: "send_message E W n_clicks (Some message) (Some conversation)
       = (Inr (Update messages, Update [],
               Update (conversation @ [mk_msg ''user'' (Some message), mk_msg ''assistant'' reply])),
          W')"
    by blast
  have c: "length conversation = 2 \<longrightarrow>
             length (conversation @ [mk_msg ''user'' (Some message), mk_msg ''assistant'' reply]) = 4
             \<and> (conversation @ [mk_msg ''user'' (Some message), mk_msg ''assistant'' reply]) ! 2
                 = mk_msg ''user'' (Some message)
             \<and> (conversation @ [mk_msg ''user'' (Some message), mk_msg ''assistant'' reply]) ! 3
                 = mk_msg ''assistant'' reply
             \<and> take 2 (conversation @ [mk_msg ''user'' (Some message), mk_msg ''assistant'' reply])
                 = conversation"
    by (simp add: nth_append)
  from handle_file_upload_round_trip [OF assms(2), of L contents filename E W]
  have d: "\<exists>file_content reply messages W'.
               handle_file_upload L E W (Some contents) filename (Some conversation)
                 = (Inr (Update (Some file_content), Update messages,
                         Update (conversation
                                 @ [mk_msg ''user''
                                      (Some (''[File uploaded: '' @ filename @ '']'' @ [NL, NL]
                                             @ file_content)),
                                    mk_msg ''assistant'' reply])),
                    W')"
    by blast
  from a b g s c d show ?thesis by blast
qed

text \<open>The message \<^verbatim>\<open>Describe this dataset\<close> after two earlier messages.\<close>

theorem conversation_append_only_witness:
  "strip ''Describe this dataset'' \<noteq> [] \<and> list_all has_role_content two_messages
   \<and> length two_messages = 2
   \<and> (\<exists>messages W'.
        send_message (stub_env (Inr \<lparr>choices = Choices [Some (ReplyMessage (Some ''A table.''))]\<rparr>)) world0 1
            (Some ''Describe this dataset'') (Some two_messages)
          = (Inr (Update messages, Update [],
                  Update (two_messages @ [mk_msg ''user'' (Some ''Describe this dataset''),
                                          mk_msg ''assistant'' (Some ''A table.'')])),
             W'))"
proof -
  let ?E = "stub_env (Inr \<lparr>choices = Choices [Some (ReplyMessage (Some ''A table.''))]\<rparr>)"
  have 1: "strip ''Describe this dataset'' \<noteq> []"
    by (simp add: strip_def is_space_def)
  have 2: "list_all has_role_content two_messages"
    by (simp add: two_messages_def has_role_content_mk_msg)
  have 3: "length two_messages = 2" by (simp add: two_messages_def)
  from conversation_append_only [OF 1 2, of "[]" ?E world0 1 stub_libs "[]" "[]"]
  obtain reply messages W' where s:
    "send_message ?E world0 1 (Some ''Describe this dataset'') (Some two_messages)
       = (Inr (Update messages, Update [],
               Update (two_messages @ [mk_msg ''user'' (Some ''Describe this dataset''),
                                       mk_msg ''assistant'' reply])),
          W')"
    by blast
  have g: "fst (call_databricks_model ?E world0
                  (two_messages @ [mk_msg ''user'' (Some ''Describe this dataset'')]))
             = Inr (Some ''A table.'')"
    by (simp add: call_databricks_model_def call_databricks_model_try_def build_request_def
        serving_endpoints_query_def extract_reply_def stub_env_def endpoint_unset_def
        world0_def two_messages_def mk_msg_def subscript_def)
  obtain r W1 where rw: "call_databricks_model ?E world0
                  (two_messages @ [mk_msg ''user'' (Some ''Describe this dataset'')]) = (Inr r, W1)"
    using call_databricks_model_returns by blast
  with g have r: "r = Some ''A table.''" by simp
  have "send_message ?E world0 1 (Some ''Describe this dataset'') (Some two_messages)
          = (case render_loop [] (two_messages @ [mk_msg ''user'' (Some ''Describe this dataset''),
                                          mk_msg ''assistant'' (Some ''A table.'')]) of
               Inl e \<Rightarrow> (Inl e, W1)
             | Inr ms \<Rightarrow> (Inr (Update ms, Update [],
                  Update (two_messages @ [mk_msg ''user'' (Some ''Describe this dataset''),
                                          mk_msg ''assistant'' (Some ''A table.'')])), W1))"
    using 1 rw r by (simp add: send_message_def append_user_def append_assistant_def Let_def)
  with s have "mk_msg ''assistant'' reply = mk_msg ''assistant'' (Some ''A table.'')"
    by (auto split: sum.splits)
  with s 1 2 3 show ?thesis by auto
qed

text \<open>
  Claim C4 as stated fails: a message of one space is not empty, and the click leaves
  the conversation of two messages at two.
\<close>

theorem send_message_space_only:
  "message_input_value page0 = Some '' ''
   \<and> conversation_history_data page0 = Some two_messages
   \<and> length two_messages = 2
   \<and> send_message empty_reply_env world0 1 (Some '' '') (Some two_messages)
       = (Inr (no_update, no_update, no_update), world0)
   \<and> on_send_click empty_reply_env 1 (world0, page0) = (world0, page0)"
  by (simp add: page0_def two_messages_def send_message_def on_send_click_def write_output_def
      strip_def is_space_def)

subsection \<open>Startup\<close>

lemma load_system_prompt_missing:
  assumes "fs prompt_path = None"
  shows "load_system_prompt L fs prompt_path
           = Inl (FileNotFoundError
                 (''Metadata prompt file not found: '' @ prompt_path @ ''. ''
                  @ ''Ensure metadata_prompt.txt exists in the same directory as app.py.''))"
  using assms by (simp add: load_system_prompt_def)

lemma build_request_system_first:
  assumes "build_request E messages = Inr rq"
  shows "\<exists>cms. q_messages rq = ChatMessage SYSTEM (Some (SYSTEM_PROMPT E)) # cms"
proof -
  have "\<And>acc r. chat_loop acc messages = Inr r \<Longrightarrow> \<exists>cms. r = acc @ cms"
  proof (induction messages)
    case Nil
    then show ?case by simp
  next
    case (Cons m ms)
    from Cons.prems obtain cm where "chat_loop (acc @ [cm]) ms = Inr r"
      by (auto split: sum.splits)
    from Cons.IH [OF this] show ?case by auto
  qed
  then show ?thesis using assms
    by (fastforce simp: build_request_def split: sum.splits)
qed

text \<open>
  Claim C9. When the prompt file is missing, \<^verbatim>\<open>_load_system_prompt\<close> raises
  \<^verbatim>\<open>FileNotFoundError\<close> and the module body ends in an exception: there is no
  application. When the file is there and decodes, startup stores its stripped text
  once, and every later request starts with that text as its system message.
\<close>

theorem startup_system_prompt:
  "(fs prompt_path = None \<longrightarrow>
      (\<exists>m. load_system_prompt L fs prompt_path = Inl (FileNotFoundError m))
      \<and> (\<exists>e. startup L fs prompt_path endpoint client = Inl e)
      \<and> (\<forall>q. client = Inr q \<longrightarrow>
             (\<exists>m. startup L fs prompt_path endpoint client = Inl (FileNotFoundError m))))
   \<and> (\<forall>bytes text q.
        fs prompt_path = Some (File bytes) \<and> utf8_decode L bytes = Inr text \<and> client = Inr q \<longrightarrow>
          startup L fs prompt_path endpoint client
            = Inr \<lparr>SERVING_ENDPOINT = endpoint, SYSTEM_PROMPT = strip text, query = q\<rparr>
          \<and> (\<forall>messages rq.
                build_request \<lparr>SERVING_ENDPOINT = endpoint, SYSTEM_PROMPT = strip text, query = q\<rparr>
                  messages = Inr rq
                \<longrightarrow> hd (q_messages rq) = ChatMessage SYSTEM (Some (strip text))))"
proof -
  have a: "fs prompt_path = None \<longrightarrow>
      (\<exists>m. load_system_prompt L fs prompt_path = Inl (FileNotFoundError m))
      \<and> (\<exists>e. startup L fs prompt_path endpoint client = Inl e)
      \<and> (\<forall>q. client = Inr q \<longrightarrow>
             (\<exists>m. startup L fs prompt_path endpoint client = Inl (FileNotFoundError m)))"
    using load_system_prompt_missing [of fs prompt_path L]
    by (cases client) (auto simp: startup_def)
  have b: "\<And>bytes text q.
        fs prompt_path = Some (File bytes) \<and> utf8_decode L bytes = Inr text \<and> client = Inr q \<Longrightarrow>
          startup L fs prompt_path endpoint client
            = Inr \<lparr>SERVING_ENDPOINT = endpoint, SYSTEM_PROMPT = strip text, query = q\<rparr>"
    by (simp add: startup_def load_system_prompt_def)
  have c: "\<And>text q messages rq.
             build_request \<lparr>SERVING_ENDPOINT = endpoint, SYSTEM_PROMPT = strip text, query = q\<rparr>
                  messages = Inr rq
                \<Longrightarrow> hd (q_messages rq) = ChatMessage SYSTEM (Some (strip text))"
    using build_request_system_first by fastforce
  from a b c show ?thesis by blast
qed

text \<open>A file system without the prompt file, and one with it.\<close>

theorem startup_system_prompt_witness:
  "(\<exists>m. startup stub_libs Map.empty ''/app/metadata_prompt.txt'' (Some ''demo-endpoint'')
           (Inr (query unset_env)) = Inl (FileNotFoundError m))
   \<and> startup stub_libs [''/app/metadata_prompt.txt'' \<mapsto> File '' Describe the data. '']
        ''/app/metadata_prompt.txt'' (Some ''demo-endpoint'') (Inr (query unset_env))
       = Inr \<lparr>SERVING_ENDPOINT = Some ''demo-endpoint'', SYSTEM_PROMPT = ''Describe the data.'',
              query = query unset_env\<rparr>"
proof -
  have 1: "(Map.empty :: filesystem) ''/app/metadata_prompt.txt'' = None" by simp
  have 2: "[''/app/metadata_prompt.txt'' \<mapsto> File '' Describe the data. '']
             ''/app/metadata_prompt.txt'' = Some (File '' Describe the data. '')
           \<and> utf8_decode stub_libs '' Describe the data. '' = Inr '' Describe the data. ''
           \<and> (Inr (query unset_env) :: exn + (query_args list \<Rightarrow> query_args \<Rightarrow> exn + response))
               = Inr (query unset_env)"
    by (simp add: stub_libs_def)
  have 3: "strip '' Describe the data. '' = ''Describe the data.''"
    by (simp add: strip_def is_space_def)
  from startup_system_prompt
    [of Map.empty "''/app/metadata_prompt.txt''" stub_libs "Some ''demo-endpoint''"
       "Inr (query unset_env)"] 1
  have a: "\<exists>m. startup stub_libs Map.empty ''/app/metadata_prompt.txt'' (Some ''demo-endpoint'')
           (Inr (query unset_env)) = Inl (FileNotFoundError m)"
    by blast
  from startup_system_prompt
    [of "[''/app/metadata_prompt.txt'' \<mapsto> File '' Describe the data. '']"
       "''/app/metadata_prompt.txt''" stub_libs "Some ''demo-endpoint''" "Inr (query unset_env)"] 2
  have b: "startup stub_libs [''/app/metadata_prompt.txt'' \<mapsto> File '' Describe the data. '']
        ''/app/metadata_prompt.txt'' (Some ''demo-endpoint'') (Inr (query unset_env))
       = Inr \<lparr>SERVING_ENDPOINT = Some ''demo-endpoint'',
              SYSTEM_PROMPT = strip '' Describe the data. '', query = query unset_env\<rparr>"
    by blast
  from a b 3 show ?thesis by simp
qed

end
